theory Spec2Isabelle
  imports Complex_Main "HOL-Library.Word"
begin

section \<open>Protocol events\<close>

text \<open>
  The handlers of \<^verbatim>\<open>wyoming_onnx_asr/handler.py\<close> and
  \<^verbatim>\<open>wyoming_nemo_asr/handler.py\<close> dispatch on the type of a Wyoming event.
  An event is one of the four types the handlers test for, in the order of the tests, or
  any other type (kept by its name).
\<close>

type_synonym bytes = "8 word list"

record audio_chunk =
  rate :: int
  width :: int
  channels :: int
  audio :: bytes

datatype event =
    AudioChunk audio_chunk
  | AudioStop
  | Transcribe "string option"
  | Describe
  | OtherEvent string

text \<open>What a handler writes to its client: a transcript, or the info event it was built with.\<close>

datatype 'i out_event =
    Transcript string
  | Info 'i

section \<open>The audio sink\<close>

text \<open>
  A \<^verbatim>\<open>wave.Wave_write\<close> object: the parameters set on it and the frames written
  to it so far. Once closed, the same data is the content of the file at
  \<^verbatim>\<open>self._wav_path\<close>.
\<close>

record wav =
  framerate :: int
  sampwidth :: int
  nchannels :: int
  frames :: bytes

text \<open>
  Modelled from the spec: the Temporary Audio Sink (section 4.2), which the handlers take
  from Python's standard \<^verbatim>\<open>wave\<close> module; its code is not part of the repository.
  \<^verbatim>\<open>open\<close> creates a fresh writable container, the three setters configure it,
  \<^verbatim>\<open>append(bytes)\<close> writes raw frames in arrival order with no reordering and no
  deduplication. The library's own validation of the parameters is outside this model: every
  sink operation succeeds.
\<close>

definition wave_open :: wav where
  "wave_open = \<lparr>framerate = 0, sampwidth = 0, nchannels = 0, frames = []\<rparr>"

definition setframerate :: "wav \<Rightarrow> int \<Rightarrow> wav" where
  "setframerate f r = f\<lparr>framerate := r\<rparr>"

definition setsampwidth :: "wav \<Rightarrow> int \<Rightarrow> wav" where
  "setsampwidth f n = f\<lparr>sampwidth := n\<rparr>"

definition setnchannels :: "wav \<Rightarrow> int \<Rightarrow> wav" where
  "setnchannels f n = f\<lparr>nchannels := n\<rparr>"

definition writeframes :: "wav \<Rightarrow> bytes \<Rightarrow> wav" where
  "writeframes f d = f\<lparr>frames := frames f @ d\<rparr>"

section \<open>Collaborators\<close>

text \<open>
  The libraries the handlers call are parameters of the model. \<open>'w\<close> is the type of a
  waveform (a numpy array of float32 samples), \<open>'m\<close> the type of a loaded ASR adapter.
  \<^item> \<open>sf_read\<close>: \<^verbatim>\<open>sf.read(path, dtype="float32")\<close> on a finalized file; the
    waveform and the sample rate.
  \<^item> \<open>ndim\<close>: \<^verbatim>\<open>len(waveform.shape)\<close>.
  \<^item> \<open>np_mean_axis1\<close>: \<^verbatim>\<open>np.mean(waveform, axis=1)\<close>.
  \<^item> \<open>astype_float32\<close>: \<^verbatim>\<open>waveform.astype(np.float32)\<close>.
  \<^item> \<open>recognize\<close>: \<^verbatim>\<open>model.recognize(waveform, sample_rate=..., language=...)\<close>;
    \<open>Inr text\<close> when it returns, \<open>Inl s\<close> when it raises an \<^verbatim>\<open>Exception\<close>
    \<open>e\<close> with \<^verbatim>\<open>str(e) = s\<close>.
  \<^item> \<open>str_list\<close>: Python's rendering of a list of strings inside an f-string.

  Of these only \<^verbatim>\<open>recognize\<close> is called under an exception handler, so only its
  failure is a value of the model; the other calls, and \<^verbatim>\<open>self.write_event\<close>,
  return.
\<close>

record ('m, 'w) env =
  sf_read :: "wav \<Rightarrow> 'w \<times> int"
  ndim :: "'w \<Rightarrow> nat"
  np_mean_axis1 :: "'w \<Rightarrow> 'w"
  astype_float32 :: "'w \<Rightarrow> 'w"
  recognize :: "'m \<Rightarrow> 'w \<Rightarrow> int \<Rightarrow> string \<Rightarrow> string + string"
  str_list :: "string list \<Rightarrow> string"

section \<open>Effects of a handler call\<close>

text \<open>The log lines of the two handlers, one constructor per logging call.\<close>

datatype log_record =
    Debug_AudioStopped "string option"
  | Info_LanguageRequested string
  | Info_AvailableModels "string list"
  | Info_SelectedEnglish string
  | Info_SelectedMultilingual string
  | Info_FallbackEnglish string
  | Error_LanguageUnavailable string
  | Error_AvailableModels "string list"
  | Error_NoModelLoaded
  | Info_Starting string
  | Info_Completed string
  | Error_RecognitionFailed string
  | Info_Result string string
  | Info_Text string
  | Debug_Completed
  | Debug_SentInfo

text \<open>
  What a call of \<^verbatim>\<open>handle_event\<close> does besides updating the handler, in order:
  log lines, the acquisition and release of \<^verbatim>\<open>self.model_lock\<close>, the call of
  \<^verbatim>\<open>recognize\<close> with its arguments (adapter, waveform, sample rate, language) and
  the events written to the client.
\<close>

datatype ('m, 'w, 'i) action =
    Log log_record
  | PrintPath
  | LockAcquire
  | LockRelease
  | Recognize 'm 'w int string
  | WriteEvent "'i out_event"

text \<open>A call returns a boolean or raises.\<close>

datatype exn =
    AssertionError
  | RecognizeError string

datatype outcome =
    Returned bool
  | Raised exn

fun recognize_calls :: "('m, 'w, 'i) action list \<Rightarrow> ('m \<times> 'w \<times> int \<times> string) list" where
  "recognize_calls [] = []"
| "recognize_calls (Recognize m x r l # as) = (m, x, r, l) # recognize_calls as"
| "recognize_calls (a # as) = recognize_calls as"

fun written_events :: "('m, 'w, 'i) action list \<Rightarrow> 'i out_event list" where
  "written_events [] = []"
| "written_events (WriteEvent ev # as) = ev # written_events as"
| "written_events (a # as) = written_events as"

text \<open>Whether the lock is held after a run of actions, given whether it was held before.\<close>

fun lock_held :: "bool \<Rightarrow> ('m, 'w, 'i) action list \<Rightarrow> bool" where
  "lock_held b [] = b"
| "lock_held b (LockAcquire # as) = lock_held True as"
| "lock_held b (LockRelease # as) = lock_held False as"
| "lock_held b (a # as) = lock_held b as"

section \<open>The handler of wyoming\_onnx\_asr\<close>

text \<open>
  The fields of \<^verbatim>\<open>NemoAsrEventHandler\<close> (wyoming\_onnx\_asr). The registry
  \<^verbatim>\<open>self.models\<close> is a dictionary, kept as the list of its items in the
  dictionary's order. \<open>wav_path_content\<close> is the decodable content of the file at
  \<^verbatim>\<open>self._wav_path\<close>, if any.
\<close>

record ('m, 'i) handler =
  wyoming_info_event :: 'i
  models :: "(string \<times> 'm) list"
  initial_prompt :: "string option"
  request_language :: "string option"
  wav_file :: "wav option"
  wav_path_content :: "wav option"

text \<open>\<^verbatim>\<open>if self.request_language:\<close> (neither \<^verbatim>\<open>None\<close> nor empty).\<close>

definition truthy :: "string option \<Rightarrow> bool" where
  "truthy s = (case s of None \<Rightarrow> False | Some l \<Rightarrow> l \<noteq> [])"

text \<open>\<^verbatim>\<open>lang = self.request_language or "en"\<close>\<close>

definition request_language_or_en :: "string option \<Rightarrow> string" where
  "request_language_or_en s = (if truthy s then the s else ''en'')"

text \<open>
  The \<^verbatim>\<open>if\<close>/\<^verbatim>\<open>elif\<close> chain that decides on the model: the registry
  key of the branch taken, the adapter and the branch's log line; \<open>None\<close> when
  \<^verbatim>\<open>model\<close> stays \<^verbatim>\<open>None\<close>.
\<close>

definition select_model :: "string \<Rightarrow> (string \<times> 'm) list \<Rightarrow> (string \<times> 'm \<times> log_record) option" where
  "select_model lang ms =
     (if lang = ''en'' \<and> map_of ms ''en'' \<noteq> None then
        Some (''en'', the (map_of ms ''en''), Info_SelectedEnglish lang)
      else if map_of ms ''multi'' \<noteq> None then
        Some (''multi'', the (map_of ms ''multi''), Info_SelectedMultilingual lang)
      else if map_of ms ''en'' \<noteq> None then
        Some (''en'', the (map_of ms ''en''), Info_FallbackEnglish lang)
      else None)"

text \<open>The branch \<^verbatim>\<open>if model is None\<close>: the error message and its log lines.\<close>

definition no_model_error :: "('m, 'w) env \<Rightarrow> ('m, 'i) handler \<Rightarrow> string \<times> log_record list" where
  "no_model_error ev h =
     (if truthy (request_language h) then
        (''Language '' @ [CHR 0x27] @ the (request_language h) @ [CHR 0x27]
           @ '' is not supported. Available models: '' @ str_list ev (map fst (models h)),
         [Error_LanguageUnavailable (the (request_language h)),
          Error_AvailableModels (map fst (models h))])
      else (''No ASR model is available for transcription'', [Error_NoModelLoaded]))"

text \<open>The \<^verbatim>\<open>AudioChunk\<close> branch.\<close>

definition handle_audio_chunk :: "('m, 'i) handler \<Rightarrow> audio_chunk \<Rightarrow> ('m, 'i) handler" where
  "handle_audio_chunk h c =
     (let h1 = (case wav_file h of
                  None \<Rightarrow>
                    h\<lparr>wav_file :=
                        Some (setnchannels (setsampwidth (setframerate wave_open (rate c)) (width c))
                                (channels c)),
                      wav_path_content := None\<rparr>
                | Some f \<Rightarrow> h)
      in h1\<lparr>wav_file := map_option (\<lambda>f. writeframes f (audio c)) (wav_file h1)\<rparr>)"

text \<open>\<^verbatim>\<open>if len(waveform.shape) > 1: waveform = np.mean(waveform, axis=1)\<close>\<close>

definition make_mono :: "('m, 'w) env \<Rightarrow> 'w \<Rightarrow> 'w" where
  "make_mono ev x = (if ndim ev x > 1 then np_mean_axis1 ev x else x)"

text \<open>
  The \<^verbatim>\<open>AudioStop\<close> branch. The \<^verbatim>\<open>assert\<close> statement is executed
  (Python run without \<^verbatim>\<open>-O\<close>) and raises when no sink is open. The
  \<^verbatim>\<open>async with self.model_lock\<close> block acquires the lock on entry and releases it
  on every exit, also on the \<^verbatim>\<open>return\<close> inside the \<^verbatim>\<open>except\<close> clause.
  The two early returns leave \<^verbatim>\<open>self.request_language\<close> as it is; only the last
  path reaches the assignment that resets it.
\<close>

definition handle_audio_stop ::
  "('m, 'w) env \<Rightarrow> ('m, 'i) handler \<Rightarrow> ('m, 'i) handler \<times> ('m, 'w, 'i) action list \<times> outcome" where
  "handle_audio_stop ev h =
     (let acts0 = [Log (Debug_AudioStopped (initial_prompt h))] in
      case wav_file h of
        None \<Rightarrow> (h, acts0, Raised AssertionError)
      | Some f \<Rightarrow>
          (let h1 = h\<lparr>wav_file := None, wav_path_content := Some f\<rparr>;
               waveform = make_mono ev (fst (sf_read ev f));
               sample_rate = snd (sf_read ev f);
               lang = request_language_or_en (request_language h);
               acts1 = acts0 @ [Log (Info_LanguageRequested lang),
                                Log (Info_AvailableModels (map fst (models h)))]
           in case select_model lang (models h) of
                None \<Rightarrow>
                  (h1,
                   acts1 @ map Log (snd (no_model_error ev h))
                     @ [WriteEvent (Transcript (''ERROR: '' @ fst (no_model_error ev h)))],
                   Returned False)
              | Some (k, model, line) \<Rightarrow>
                  (case recognize ev model (astype_float32 ev waveform) sample_rate lang of
                     Inl e \<Rightarrow>
                       (h1,
                        acts1 @ [Log line, LockAcquire, Log (Info_Starting lang),
                                 Recognize model (astype_float32 ev waveform) sample_rate lang,
                                 Log (Error_RecognitionFailed e),
                                 WriteEvent (Transcript (''ERROR: '' @ ''Transcription failed: '' @ e)),
                                 LockRelease],
                        Returned False)
                   | Inr txt \<Rightarrow>
                       (h1\<lparr>request_language := None\<rparr>,
                        acts1 @ [Log line, LockAcquire, Log (Info_Starting lang),
                                 Recognize model (astype_float32 ev waveform) sample_rate lang,
                                 Log (Info_Completed lang),
                                 LockRelease,
                                 Log (Info_Result lang txt),
                                 WriteEvent (Transcript txt),
                                 Log Debug_Completed],
                        Returned False))))"

text \<open>\<^verbatim>\<open>handle_event\<close> of wyoming\_onnx\_asr.\<close>

definition handle_event ::
  "('m, 'w) env \<Rightarrow> ('m, 'i) handler \<Rightarrow> event
     \<Rightarrow> ('m, 'i) handler \<times> ('m, 'w, 'i) action list \<times> outcome" where
  "handle_event ev h e =
     (case e of
        AudioChunk c \<Rightarrow> (handle_audio_chunk h c, [], Returned True)
      | AudioStop \<Rightarrow> handle_audio_stop ev h
      | Transcribe l \<Rightarrow> (h\<lparr>request_language := l\<rparr>, [], Returned True)
      | Describe \<Rightarrow>
          (h, [WriteEvent (Info (wyoming_info_event h)), Log Debug_SentInfo], Returned True)
      | OtherEvent t \<Rightarrow> (h, [], Returned True))"

text \<open>
  A caller that delivers a sequence of events to one handler, each call on the state the
  previous one left, until a call raises.
\<close>

fun feed_events ::
  "('m, 'w) env \<Rightarrow> ('m, 'i) handler \<Rightarrow> event list
     \<Rightarrow> ('m, 'i) handler \<times> ('m, 'w, 'i) action list \<times> outcome list" where
  "feed_events ev h [] = (h, [], [])"
| "feed_events ev h (e # es) =
     (case handle_event ev h e of
        (h1, acts, Raised x) \<Rightarrow> (h1, acts, [Raised x])
      | (h1, acts, Returned b) \<Rightarrow>
          (case feed_events ev h1 es of
             (h2, acts2, rs) \<Rightarrow> (h2, acts @ acts2, Returned b # rs)))"

section \<open>The handler of wyoming\_nemo\_asr\<close>

text \<open>
  The second variant: one adapter \<^verbatim>\<open>self.model\<close> in place of the registry, no
  requested language, and no exception handler around \<^verbatim>\<open>recognize\<close>, which is
  always called with the language \<open>en\<close>.
\<close>

record ('m, 'i) nemo_handler =
  nemo_wyoming_info_event :: 'i
  nemo_model :: 'm
  nemo_initial_prompt :: "string option"
  nemo_wav_file :: "wav option"
  nemo_wav_path_content :: "wav option"

definition nemo_handle_audio_chunk :: "('m, 'i) nemo_handler \<Rightarrow> audio_chunk \<Rightarrow> ('m, 'i) nemo_handler" where
  "nemo_handle_audio_chunk h c =
     (let h1 = (case nemo_wav_file h of
                  None \<Rightarrow>
                    h\<lparr>nemo_wav_file :=
                        Some (setnchannels (setsampwidth (setframerate wave_open (rate c)) (width c))
                                (channels c)),
                      nemo_wav_path_content := None\<rparr>
                | Some f \<Rightarrow> h)
      in h1\<lparr>nemo_wav_file := map_option (\<lambda>f. writeframes f (audio c)) (nemo_wav_file h1)\<rparr>)"

definition nemo_handle_audio_stop ::
  "('m, 'w) env \<Rightarrow> ('m, 'i) nemo_handler
     \<Rightarrow> ('m, 'i) nemo_handler \<times> ('m, 'w, 'i) action list \<times> outcome" where
  "nemo_handle_audio_stop ev h =
     (let acts0 = [Log (Debug_AudioStopped (nemo_initial_prompt h))] in
      case nemo_wav_file h of
        None \<Rightarrow> (h, acts0, Raised AssertionError)
      | Some f \<Rightarrow>
          (let h1 = h\<lparr>nemo_wav_file := None, nemo_wav_path_content := Some f\<rparr>;
               waveform = make_mono ev (fst (sf_read ev f));
               sample_rate = snd (sf_read ev f);
               acts1 = acts0 @ [PrintPath, LockAcquire,
                                Recognize (nemo_model h) waveform sample_rate ''en'',
                                LockRelease]
           in case recognize ev (nemo_model h) waveform sample_rate ''en'' of
                Inl e \<Rightarrow> (h1, acts1, Raised (RecognizeError e))
              | Inr txt \<Rightarrow>
                  (h1,
                   acts1 @ [Log (Info_Text txt), WriteEvent (Transcript txt), Log Debug_Completed],
                   Returned False)))"

text \<open>\<^verbatim>\<open>handle_event\<close> of wyoming\_nemo\_asr.\<close>

definition nemo_handle_event ::
  "('m, 'w) env \<Rightarrow> ('m, 'i) nemo_handler \<Rightarrow> event
     \<Rightarrow> ('m, 'i) nemo_handler \<times> ('m, 'w, 'i) action list \<times> outcome" where
  "nemo_handle_event ev h e =
     (case e of
        AudioChunk c \<Rightarrow> (nemo_handle_audio_chunk h c, [], Returned True)
      | AudioStop \<Rightarrow> nemo_handle_audio_stop ev h
      | Transcribe l \<Rightarrow> (h, [], Returned True)
      | Describe \<Rightarrow>
          (h, [WriteEvent (Info (nemo_wyoming_info_event h)), Log Debug_SentInfo], Returned True)
      | OtherEvent t \<Rightarrow> (h, [], Returned True))"

fun nemo_feed_events ::
  "('m, 'w) env \<Rightarrow> ('m, 'i) nemo_handler \<Rightarrow> event list
     \<Rightarrow> ('m, 'i) nemo_handler \<times> ('m, 'w, 'i) action list \<times> outcome list" where
  "nemo_feed_events ev h [] = (h, [], [])"
| "nemo_feed_events ev h (e # es) =
     (case nemo_handle_event ev h e of
        (h1, acts, Raised x) \<Rightarrow> (h1, acts, [Raised x])
      | (h1, acts, Returned b) \<Rightarrow>
          (case nemo_feed_events ev h1 es of
             (h2, acts2, rs) \<Rightarrow> (h2, acts @ acts2, Returned b # rs)))"

section \<open>Derived notions\<close>

text \<open>The registry key of the branch that the selection takes for a requested language.\<close>

definition selected_key :: "string option \<Rightarrow> (string \<times> 'm) list \<Rightarrow> string option" where
  "selected_key rl ms = map_option fst (select_model (request_language_or_en rl) ms)"

text \<open>
  The selection policy in the words of the specification, on the requested language and the
  set of registry keys: English when the request is English or unset and an English entry
  exists, else the multilingual entry, else the English entry, else none.
\<close>

definition claimed_selection :: "string option \<Rightarrow> string set \<Rightarrow> string option" where
  "claimed_selection rl ks =
     (if (rl = Some ''en'' \<or> rl = None) \<and> ''en'' \<in> ks then Some ''en''
      else if ''multi'' \<in> ks then Some ''multi''
      else if ''en'' \<in> ks then Some ''en''
      else None)"

text \<open>An action with the prompt of the debug line of \<^verbatim>\<open>AudioStop\<close> replaced.\<close>

fun with_prompt :: "string option \<Rightarrow> ('m, 'w, 'i) action \<Rightarrow> ('m, 'w, 'i) action" where
  "with_prompt p (Log (Debug_AudioStopped q)) = Log (Debug_AudioStopped p)"
| "with_prompt p a = a"

text \<open>
  Whether every \<^verbatim>\<open>recognize\<close> call of a run of actions is made while the lock is
  held, given whether it was held before.
\<close>

fun recognize_guarded :: "bool \<Rightarrow> ('m, 'w, 'i) action list \<Rightarrow> bool" where
  "recognize_guarded b [] = True"
| "recognize_guarded b (LockAcquire # as) = recognize_guarded True as"
| "recognize_guarded b (LockRelease # as) = recognize_guarded False as"
| "recognize_guarded b (Recognize m x r l # as) = (b \<and> recognize_guarded b as)"
| "recognize_guarded b (a # as) = recognize_guarded b as"

section \<open>Arrays of samples\<close>

text \<open>
  Modelled from the spec: the waveform that is read back from the sink, as far as the
  specification describes it (sections 4.1 and 8). The handlers take it from the libraries
  soundfile and numpy, whose code is not part of the repository. A one-dimensional array holds
  the samples of a single-channel recording; a two-dimensional array holds one row per frame,
  and a row holds the frame's sample of every channel. Samples are elements of a field: the
  arithmetic of the specification is exact, the rounding of 32-bit floating point is outside
  this model.
\<close>

datatype 'a ndarray =
    Array1 "'a list"
  | Array2 "'a list list"

text \<open>Modelled from the spec: \<^verbatim>\<open>len(waveform.shape)\<close>, the number of axes.\<close>

definition array_ndim :: "'a ndarray \<Rightarrow> nat" where
  "array_ndim x = (case x of Array1 xs \<Rightarrow> 1 | Array2 rows \<Rightarrow> 2)"

text \<open>
  Modelled from the spec: \<^verbatim>\<open>np.mean(waveform, axis=1)\<close>, the down-mix to a single
  channel by the per-sample arithmetic mean across channels. The handlers call it on arrays
  with more than one axis only; on a one-dimensional array (where numpy raises) the model
  returns its argument.
\<close>

definition mean_axis1 :: "('a::field) ndarray \<Rightarrow> 'a ndarray" where
  "mean_axis1 x =
     (case x of
        Array1 xs \<Rightarrow> Array1 xs
      | Array2 rows \<Rightarrow> Array1 (map (\<lambda>r. sum_list r / of_nat (length r)) rows))"

text \<open>
  Modelled from the spec: collaborators whose array operations are the ones above. The
  conversion \<^verbatim>\<open>astype(np.float32)\<close> is applied to samples that are of that type
  already (\<^verbatim>\<open>sf.read\<close> is called with \<^verbatim>\<open>dtype="float32"\<close>) and returns them
  as they are. The decoder and the adapters stay parameters.
\<close>

definition with_numpy :: "('m, ('a::field) ndarray) env \<Rightarrow> ('m, 'a ndarray) env" where
  "with_numpy ev = ev\<lparr>ndim := array_ndim, np_mean_axis1 := mean_axis1, astype_float32 := (\<lambda>x. x)\<rparr>"

section \<open>Concrete inputs\<close>

text \<open>
  Stand-ins for the collaborators, to evaluate the handlers on concrete inputs: the decoder
  keeps the bytes and the channel count, an adapter is a name, and the adapter named
  \<open>broken\<close> raises.
\<close>

definition example_env :: "(string, bytes \<times> nat) env" where
  "example_env =
     \<lparr>sf_read = (\<lambda>f. ((frames f, nat (nchannels f)), framerate f)),
      ndim = (\<lambda>x. if snd x > 1 then 2 else 1),
      np_mean_axis1 = (\<lambda>x. (fst x, 1)),
      astype_float32 = (\<lambda>x. x),
      recognize = (\<lambda>m x r l. if m = ''broken'' then Inl ''boom'' else Inr (m @ '':'' @ l)),
      str_list = concat\<rparr>"

definition example_chunk :: audio_chunk where
  "example_chunk = \<lparr>rate = 16000, width = 2, channels = 1, audio = [1, 2]\<rparr>"

definition example_wav :: wav where
  "example_wav = \<lparr>framerate = 16000, sampwidth = 2, nchannels = 1, frames = [1, 2]\<rparr>"

definition example_handler :: "(string, string) handler" where
  "example_handler =
     \<lparr>wyoming_info_event = ''info'',
      models = [(''en'', ''model-en''), (''multi'', ''model-multi'')],
      initial_prompt = None,
      request_language = None,
      wav_file = None,
      wav_path_content = None\<rparr>"

definition example_nemo_handler :: "(string, string) nemo_handler" where
  "example_nemo_handler =
     \<lparr>nemo_wyoming_info_event = ''info'',
      nemo_model = ''model-en'',
      nemo_initial_prompt = None,
      nemo_wav_file = None,
      nemo_wav_path_content = None\<rparr>"

text \<open>
  A stand-in decoder to arrays of rationals: every byte is a sample, and the samples of a
  two-channel file are paired into frames.
\<close>

fun stereo_frames :: "'a list \<Rightarrow> 'a list list" where
  "stereo_frames (a # b # xs) = [a, b] # stereo_frames xs"
| "stereo_frames xs = []"

definition example_array_env :: "(string, rat ndarray) env" where
  "example_array_env =
     \<lparr>sf_read = (\<lambda>f. (if nchannels f = 2
                        then Array2 (stereo_frames (map (\<lambda>b. of_nat (unat b)) (frames f)))
                        else Array1 (map (\<lambda>b. of_nat (unat b)) (frames f)),
                      framerate f)),
      ndim = array_ndim,
      np_mean_axis1 = mean_axis1,
      astype_float32 = (\<lambda>x. x),
      recognize = (\<lambda>m x r l. Inr m),
      str_list = concat\<rparr>"

definition example_stereo_wav :: wav where
  "example_stereo_wav = \<lparr>framerate = 16000, sampwidth = 1, nchannels = 2, frames = [1, 3, 2, 6]\<rparr>"

section \<open>Unfolding rules\<close>

lemmas sink_defs =
  wave_open_def setframerate_def setsampwidth_def setnchannels_def writeframes_def

lemmas onnx_defs =
  handle_event_def handle_audio_stop_def handle_audio_chunk_def select_model_def
  request_language_or_en_def truthy_def no_model_error_def make_mono_def Let_def

lemmas nemo_defs =
  nemo_handle_event_def nemo_handle_audio_stop_def nemo_handle_audio_chunk_def
  make_mono_def Let_def

lemmas example_defs =
  example_env_def example_chunk_def example_wav_def example_handler_def
  example_nemo_handler_def

section \<open>Projections of a run of actions\<close>

lemma recognize_calls_append:
  "recognize_calls (xs @ ys) = recognize_calls xs @ recognize_calls ys"
  by (induction xs rule: recognize_calls.induct) simp_all

lemma written_events_append:
  "written_events (xs @ ys) = written_events xs @ written_events ys"
  by (induction xs rule: written_events.induct) simp_all

lemma lock_held_append:
  "lock_held b (xs @ ys) = lock_held (lock_held b xs) ys"
  by (induction b xs rule: lock_held.induct) simp_all

lemma recognize_calls_logs: "recognize_calls (map Log ls) = []"
  by (induction ls) simp_all

lemma written_events_logs: "written_events (map Log ls) = []"
  by (induction ls) simp_all

lemma lock_held_logs: "lock_held b (map Log ls) = b"
  by (induction ls) simp_all

lemma with_prompt_shape:
  "with_prompt p a = a \<or> (\<exists>q. a = Log (Debug_AudioStopped q) \<and> with_prompt p a = Log (Debug_AudioStopped p))"
  by (cases "(p, a)" rule: with_prompt.cases) auto

lemma recognize_calls_with_prompt:
  "recognize_calls (map (with_prompt p) xs) = recognize_calls xs"
proof (induction xs)
  case Nil
  show ?case by simp
next
  case (Cons a xs)
  from with_prompt_shape [of p a] Cons show ?case by (cases a) auto
qed

lemma written_events_with_prompt:
  "written_events (map (with_prompt p) xs) = written_events xs"
proof (induction xs)
  case Nil
  show ?case by simp
next
  case (Cons a xs)
  from with_prompt_shape [of p a] Cons show ?case by (cases a) auto
qed

section \<open>Model selection\<close>

lemma selected_key_formula:
  "selected_key rl ms =
     (if (rl = Some ''en'' \<or> rl = None \<or> rl = Some []) \<and> ''en'' \<in> fst ` set ms then Some ''en''
      else if ''multi'' \<in> fst ` set ms then Some ''multi''
      else if ''en'' \<in> fst ` set ms then Some ''en''
      else None)"
  by (cases rl)
    (auto simp: selected_key_def select_model_def request_language_or_en_def truthy_def
      map_of_eq_None_iff)

lemma selected_adapter:
  "map_option (fst \<circ> snd) (select_model lang ms) =
     (case map_option fst (select_model lang ms) of None \<Rightarrow> None | Some k \<Rightarrow> map_of ms k)"
  by (auto simp: select_model_def)

lemma select_model_line:
  "select_model lang ms = Some (k, m, line) \<Longrightarrow> with_prompt p (Log line) = Log line"
  by (auto simp: select_model_def split: if_splits)

section \<open>The stop event on an open sink\<close>

lemma stop_recognize_calls:
  assumes "wav_file h = Some f"
  shows "recognize_calls (fst (snd (handle_event ev h AudioStop))) =
     (case select_model (request_language_or_en (request_language h)) (models h) of
        None \<Rightarrow> []
      | Some (k, m, line) \<Rightarrow>
          [(m, astype_float32 ev (make_mono ev (fst (sf_read ev f))), snd (sf_read ev f),
            request_language_or_en (request_language h))])"
  using assms
  by (simp add: handle_event_def handle_audio_stop_def Let_def recognize_calls_append
      recognize_calls_logs split: option.splits sum.splits prod.splits)

lemma stop_no_model:
  assumes "wav_file h = Some f"
    and "select_model (request_language_or_en (request_language h)) (models h) = None"
  shows "handle_event ev h AudioStop =
     (h\<lparr>wav_file := None, wav_path_content := Some f\<rparr>,
      [Log (Debug_AudioStopped (initial_prompt h)),
       Log (Info_LanguageRequested (request_language_or_en (request_language h))),
       Log (Info_AvailableModels (map fst (models h)))]
        @ map Log (snd (no_model_error ev h))
        @ [WriteEvent (Transcript (''ERROR: '' @ fst (no_model_error ev h)))],
      Returned False)"
  using assms by (simp add: handle_event_def handle_audio_stop_def Let_def)

lemma stop_recognize_raises:
  assumes "wav_file h = Some f"
    and "select_model (request_language_or_en (request_language h)) (models h) = Some (k, m, line)"
    and "recognize ev m (astype_float32 ev (make_mono ev (fst (sf_read ev f)))) (snd (sf_read ev f))
           (request_language_or_en (request_language h)) = Inl e"
  shows "handle_event ev h AudioStop =
     (h\<lparr>wav_file := None, wav_path_content := Some f\<rparr>,
      [Log (Debug_AudioStopped (initial_prompt h)),
       Log (Info_LanguageRequested (request_language_or_en (request_language h))),
       Log (Info_AvailableModels (map fst (models h))),
       Log line, LockAcquire,
       Log (Info_Starting (request_language_or_en (request_language h))),
       Recognize m (astype_float32 ev (make_mono ev (fst (sf_read ev f)))) (snd (sf_read ev f))
         (request_language_or_en (request_language h)),
       Log (Error_RecognitionFailed e),
       WriteEvent (Transcript (''ERROR: '' @ ''Transcription failed: '' @ e)),
       LockRelease],
      Returned False)"
  using assms by (simp add: handle_event_def handle_audio_stop_def Let_def)

lemma stop_sink:
  assumes "wav_file h = Some f"
  shows "wav_path_content (fst (handle_event ev h AudioStop)) = Some f"
    and "wav_file (fst (handle_event ev h AudioStop)) = None"
    and "snd (snd (handle_event ev h AudioStop)) = Returned False"
  using assms
  by (simp_all add: handle_event_def handle_audio_stop_def Let_def
      split: option.splits sum.splits prod.splits)

lemma nemo_stop_raises:
  assumes "nemo_wav_file n = Some g"
    and "recognize ev (nemo_model n) (make_mono ev (fst (sf_read ev g))) (snd (sf_read ev g)) ''en'' = Inl e"
  shows "nemo_handle_event ev n AudioStop =
     (n\<lparr>nemo_wav_file := None, nemo_wav_path_content := Some g\<rparr>,
      [Log (Debug_AudioStopped (nemo_initial_prompt n)), PrintPath, LockAcquire,
       Recognize (nemo_model n) (make_mono ev (fst (sf_read ev g))) (snd (sf_read ev g)) ''en'',
       LockRelease],
      Raised (RecognizeError e))"
  using assms by (simp add: nemo_handle_event_def nemo_handle_audio_stop_def Let_def)

lemma nemo_stop_recognize_calls:
  assumes "nemo_wav_file n = Some g"
  shows "recognize_calls (fst (snd (nemo_handle_event ev n AudioStop))) =
     [(nemo_model n, make_mono ev (fst (sf_read ev g)), snd (sf_read ev g), ''en'')]"
  using assms
  by (simp add: nemo_handle_event_def nemo_handle_audio_stop_def Let_def recognize_calls_append
      split: sum.splits)

lemma nemo_recognize_language:
  "set (map (snd \<circ> snd \<circ> snd) (recognize_calls (fst (snd (nemo_handle_event ev n e))))) \<subseteq> {''en''}"
  by (cases e)
    (simp_all add: nemo_handle_event_def nemo_handle_audio_stop_def Let_def recognize_calls_append
      split: option.splits sum.splits)

section \<open>The down-mix\<close>

lemma make_mono_with_numpy:
  "make_mono (with_numpy ev) (Array1 xs) = Array1 xs"
  "make_mono (with_numpy ev) (Array2 rows) = Array1 (map (\<lambda>r. sum_list r / of_nat (length r)) rows)"
  by (simp_all add: make_mono_def with_numpy_def array_ndim_def mean_axis1_def)

lemma with_numpy_fields:
  "sf_read (with_numpy ev) = sf_read ev"
  "recognize (with_numpy ev) = recognize ev"
  "astype_float32 (with_numpy ev) x = x"
  by (simp_all add: with_numpy_def)

lemma mean_of_rows:
  "\<forall>r\<in>set rows. length r = N \<Longrightarrow>
   map (\<lambda>r. sum_list r / of_nat (length r)) rows = map (\<lambda>r. sum_list r / of_nat N) rows"
  by (induction rows) simp_all

lemma mean_of_pairs:
  "map (\<lambda>r. sum_list r / of_nat (length r)) (map (\<lambda>(a, b). [a, b]) ps)
     = map (\<lambda>(a, b). (a + b) / 2) ps"
  by (induction ps) (simp_all add: case_prod_beta)

lemma stop_waveforms:
  assumes "wav_file h = Some f"
  shows "map (fst \<circ> snd) (recognize_calls (fst (snd (handle_event ev h AudioStop)))) =
     (case select_model (request_language_or_en (request_language h)) (models h) of
        None \<Rightarrow> []
      | Some s \<Rightarrow> [astype_float32 ev (make_mono ev (fst (sf_read ev f)))])"
  by (simp add: stop_recognize_calls [OF assms] split: option.splits prod.splits)

lemma nemo_stop_waveforms:
  assumes "nemo_wav_file n = Some g"
  shows "map (fst \<circ> snd) (recognize_calls (fst (snd (nemo_handle_event ev n AudioStop)))) =
     [make_mono ev (fst (sf_read ev g))]"
  by (simp add: nemo_stop_recognize_calls [OF assms])

section \<open>Chunks\<close>

lemma chunk_on_closed_sink:
  "wav_file h = None \<Longrightarrow>
   wav_file (handle_audio_chunk h c) =
     Some \<lparr>framerate = rate c, sampwidth = width c, nchannels = channels c, frames = audio c\<rparr>"
  by (simp add: handle_audio_chunk_def sink_defs)

lemma chunk_on_open_sink:
  "wav_file h = Some f \<Longrightarrow>
   wav_file (handle_audio_chunk h c) = Some (f\<lparr>frames := frames f @ audio c\<rparr>)"
  by (simp add: handle_audio_chunk_def sink_defs)

lemma chunks_on_open_sink:
  "wav_file h = Some f \<Longrightarrow>
   wav_file (foldl handle_audio_chunk h cs) = Some (f\<lparr>frames := frames f @ concat (map audio cs)\<rparr>)"
proof (induction cs arbitrary: h f)
  case Nil
  then show ?case by simp
next
  case (Cons c cs)
  have "wav_file (handle_audio_chunk h c) = Some (f\<lparr>frames := frames f @ audio c\<rparr>)"
    using Cons.prems by (rule chunk_on_open_sink)
  from Cons.IH [OF this] show ?case by simp
qed

lemma chunk_keeps:
  "request_language (handle_audio_chunk h c) = request_language h"
  "models (handle_audio_chunk h c) = models h"
  by (simp_all add: handle_audio_chunk_def Let_def split: option.splits)

lemma chunks_keep:
  "request_language (foldl handle_audio_chunk h cs) = request_language h"
  "models (foldl handle_audio_chunk h cs) = models h"
  by (induction cs arbitrary: h) (simp_all add: chunk_keeps)

lemma chunk_request_language:
  "handle_audio_chunk (h\<lparr>request_language := l\<rparr>) c = (handle_audio_chunk h c)\<lparr>request_language := l\<rparr>"
  by (simp add: handle_audio_chunk_def Let_def split: option.splits)

lemma chunks_request_language:
  "foldl handle_audio_chunk (h\<lparr>request_language := l\<rparr>) cs
     = (foldl handle_audio_chunk h cs)\<lparr>request_language := l\<rparr>"
  by (induction cs arbitrary: h) (simp_all add: chunk_request_language)

lemma feed_events_single:
  "feed_events ev h [e] = (case handle_event ev h e of (h1, acts, r) \<Rightarrow> (h1, acts, [r]))"
  by (simp split: prod.splits outcome.splits)

lemma feed_events_chunks:
  "feed_events ev h (map AudioChunk cs @ es) =
     (case feed_events ev (foldl handle_audio_chunk h cs) es of
        (h2, acts, rs) \<Rightarrow> (h2, acts, map (\<lambda>c. Returned True) cs @ rs))"
  by (induction cs arbitrary: h) (simp_all add: handle_event_def split: prod.splits)

lemma feed_events_chunks_stop:
  "feed_events ev h (map AudioChunk cs @ [AudioStop]) =
     (case handle_event ev (foldl handle_audio_chunk h cs) AudioStop of
        (h2, acts, r) \<Rightarrow> (h2, acts, map (\<lambda>c. Returned True) cs @ [r]))"
  by (simp only: feed_events_chunks feed_events_single) (simp split: prod.splits)

section \<open>The initial prompt\<close>

lemma handle_event_initial_prompt:
  "handle_event ev (h\<lparr>initial_prompt := p\<rparr>) e =
     (case handle_event ev h e of
        (h1, acts, r) \<Rightarrow> (h1\<lparr>initial_prompt := p\<rparr>, map (with_prompt p) acts, r))"
proof (cases e)
  case AudioStop
  show ?thesis
    unfolding AudioStop
    by (simp add: handle_event_def handle_audio_stop_def no_model_error_def Let_def
        select_model_line split: option.splits sum.splits prod.splits)
qed (simp_all add: handle_event_def handle_audio_chunk_def Let_def split: option.splits)

lemma feed_events_initial_prompt:
  "feed_events ev (h\<lparr>initial_prompt := p\<rparr>) es =
     (case feed_events ev h es of
        (h1, acts, rs) \<Rightarrow> (h1\<lparr>initial_prompt := p\<rparr>, map (with_prompt p) acts, rs))"
proof (induction es arbitrary: h)
  case Nil
  show ?case by simp
next
  case (Cons e es)
  show ?case
    by (simp add: handle_event_initial_prompt Cons.IH split: prod.splits outcome.splits)
qed

lemma nemo_handle_event_initial_prompt:
  "nemo_handle_event ev (n\<lparr>nemo_initial_prompt := p\<rparr>) e =
     (case nemo_handle_event ev n e of
        (n1, acts, r) \<Rightarrow> (n1\<lparr>nemo_initial_prompt := p\<rparr>, map (with_prompt p) acts, r))"
  by (cases e)
    (simp_all add: nemo_handle_event_def nemo_handle_audio_stop_def nemo_handle_audio_chunk_def
      Let_def split: option.splits sum.splits)

lemma nemo_feed_events_initial_prompt:
  "nemo_feed_events ev (n\<lparr>nemo_initial_prompt := p\<rparr>) es =
     (case nemo_feed_events ev n es of
        (n1, acts, rs) \<Rightarrow> (n1\<lparr>nemo_initial_prompt := p\<rparr>, map (with_prompt p) acts, rs))"
proof (induction es arbitrary: n)
  case Nil
  show ?case by simp
next
  case (Cons e es)
  show ?case
    by (simp add: nemo_handle_event_initial_prompt Cons.IH split: prod.splits outcome.splits)
qed

section \<open>The lock around the recognize call\<close>

lemma recognize_guarded_append:
  "recognize_guarded b (xs @ ys) = (recognize_guarded b xs \<and> recognize_guarded (lock_held b xs) ys)"
  by (induction b xs rule: recognize_guarded.induct) simp_all

lemma recognize_guarded_logs: "recognize_guarded b (map Log ls) = True"
  by (induction ls) simp_all

lemma recognize_under_lock:
  "recognize_guarded False (fst (snd (handle_event ev h e)))
   \<and> lock_held False (fst (snd (handle_event ev h e))) = False"
  by (cases e)
    (simp_all add: handle_event_def handle_audio_stop_def Let_def recognize_guarded_append
      recognize_guarded_logs lock_held_append lock_held_logs
      split: option.splits sum.splits prod.splits)

lemma nemo_recognize_under_lock:
  "recognize_guarded False (fst (snd (nemo_handle_event ev n e)))
   \<and> lock_held False (fst (snd (nemo_handle_event ev n e))) = False"
  by (cases e)
    (simp_all add: nemo_handle_event_def nemo_handle_audio_stop_def Let_def
      split: option.splits sum.splits)

section \<open>Properties of the handlers\<close>

text \<open>
  Claim C1, as amended. The key selected at a stop event is a function of the requested language
  and the set of registry keys: the English entry when the requested language is \<open>en\<close>,
  unset or the empty string and an English entry exists; else the multilingual entry when one
  exists; else the English entry when one exists; else none. The adapter used is the registry's
  entry under that key, it is the adapter of the one \<^verbatim>\<open>recognize\<close> call of a stop
  event on an open sink, and when no key is selected there is no such call: the handler writes
  one transcript that starts with \<open>ERROR:\<close> and returns \<open>False\<close>. The five pairs of
  the claim select \<open>en\<close>, \<open>multi\<close>, \<open>en\<close>, \<open>multi\<close> and nothing.
\<close>
theorem C1_model_selection:
  assumes "wav_file h = Some f"
  shows "selected_key rl ms =
           (if (rl = Some ''en'' \<or> rl = None \<or> rl = Some []) \<and> ''en'' \<in> fst ` set ms then Some ''en''
            else if ''multi'' \<in> fst ` set ms then Some ''multi''
            else if ''en'' \<in> fst ` set ms then Some ''en''
            else None)
       \<and> map_option (fst \<circ> snd) (select_model (request_language_or_en rl) ms) =
           (case selected_key rl ms of None \<Rightarrow> None | Some k \<Rightarrow> map_of ms k)
       \<and> recognize_calls (fst (snd (handle_event ev h AudioStop))) =
           (case selected_key (request_language h) (models h) of
              None \<Rightarrow> []
            | Some k \<Rightarrow>
                [(the (map_of (models h) k),
                  astype_float32 ev (make_mono ev (fst (sf_read ev f))),
                  snd (sf_read ev f),
                  request_language_or_en (request_language h))])
       \<and> (selected_key (request_language h) (models h) = None \<longrightarrow>
            written_events (fst (snd (handle_event ev h AudioStop))) =
              [Transcript (''ERROR: '' @ fst (no_model_error ev h))]
            \<and> snd (snd (handle_event ev h AudioStop)) = Returned False)
       \<and> selected_key (Some ''en'') [(''en'', a)] = Some ''en''
       \<and> selected_key (Some ''fr'') [(''en'', a), (''multi'', b)] = Some ''multi''
       \<and> selected_key (Some ''fr'') [(''en'', a)] = Some ''en''
       \<and> selected_key None [(''multi'', b)] = Some ''multi''
       \<and> selected_key (Some ''en'') ([] :: (string \<times> 'c) list) = None"
proof -
  have calls: "recognize_calls (fst (snd (handle_event ev h AudioStop))) =
           (case selected_key (request_language h) (models h) of
              None \<Rightarrow> []
            | Some k \<Rightarrow>
                [(the (map_of (models h) k),
                  astype_float32 ev (make_mono ev (fst (sf_read ev f))),
                  snd (sf_read ev f),
                  request_language_or_en (request_language h))])"
    unfolding stop_recognize_calls [OF assms] selected_key_def
    by (auto simp: select_model_def)
  have none: "selected_key (request_language h) (models h) = None \<longrightarrow>
            written_events (fst (snd (handle_event ev h AudioStop))) =
              [Transcript (''ERROR: '' @ fst (no_model_error ev h))]
            \<and> snd (snd (handle_event ev h AudioStop)) = Returned False"
    by (simp add: selected_key_def stop_no_model [OF assms] written_events_append
        written_events_logs)
  have adapter: "map_option (fst \<circ> snd) (select_model (request_language_or_en rl) ms) =
           (case selected_key rl ms of None \<Rightarrow> None | Some k \<Rightarrow> map_of ms k)"
    unfolding selected_key_def by (rule selected_adapter)
  have examples: "selected_key (Some ''en'') [(''en'', a)] = Some ''en''
       \<and> selected_key (Some ''fr'') [(''en'', a), (''multi'', b)] = Some ''multi''
       \<and> selected_key (Some ''fr'') [(''en'', a)] = Some ''en''
       \<and> selected_key None [(''multi'', b)] = Some ''multi''
       \<and> selected_key (Some ''en'') ([] :: (string \<times> 'c) list) = None"
    by (simp add: selected_key_formula)
  from selected_key_formula [of rl ms] adapter calls none examples show ?thesis
    by (intro conjI) blast+
qed

text \<open>An empty registry with an open sink: no key is selected and the error transcript is written.\<close>
theorem C1_model_selection_witness:
  "wav_file (example_handler\<lparr>models := [], wav_file := Some example_wav\<rparr>) = Some example_wav
   \<and> selected_key (request_language (example_handler\<lparr>models := [], wav_file := Some example_wav\<rparr>))
       (models (example_handler\<lparr>models := [], wav_file := Some example_wav\<rparr>)) = None
   \<and> written_events (fst (snd (handle_event example_env
        (example_handler\<lparr>models := [], wav_file := Some example_wav\<rparr>) AudioStop))) =
       [Transcript ''ERROR: No ASR model is available for transcription'']
   \<and> recognize_calls (fst (snd (handle_event example_env
        (example_handler\<lparr>models := [], wav_file := Some example_wav\<rparr>) AudioStop))) = []"
proof -
  let ?h = "example_handler\<lparr>models := [], wav_file := Some example_wav\<rparr>"
  have sink: "wav_file ?h = Some example_wav" by simp
  have none: "selected_key (request_language ?h) (models ?h) = None"
    by (simp add: selected_key_formula)
  have msg: "fst (no_model_error example_env ?h) = ''No ASR model is available for transcription''"
    by (simp add: no_model_error_def truthy_def example_handler_def)
  note t = C1_model_selection [OF sink, where rl = None and ms = "[] :: (string \<times> string) list"
      and ev = example_env and a = "''x''" and b = "''y''"]
  note calls = t [THEN conjunct2, THEN conjunct2, THEN conjunct1, unfolded none]
  note written = t [THEN conjunct2, THEN conjunct2, THEN conjunct2, THEN conjunct1, THEN mp,
      OF none, THEN conjunct1, unfolded msg]
  from calls have c: "recognize_calls (fst (snd (handle_event example_env ?h AudioStop))) = []"
    by simp
  from written have w: "written_events (fst (snd (handle_event example_env ?h AudioStop))) =
      [Transcript ''ERROR: No ASR model is available for transcription'']"
    by simp
  from sink none w c show ?thesis by (intro conjI)
qed

text \<open>
  The policy as the claim words it sends the empty language to the multilingual entry (it is
  neither \<open>en\<close> nor unset); the handler treats it as unset and selects the English one.
\<close>
theorem C1_counterexample:
  "claimed_selection (Some []) (fst ` set (models example_handler)) = Some ''multi''
   \<and> selected_key (Some []) (models example_handler) = Some ''en''
   \<and> recognize_calls (fst (snd (handle_event example_env
        (example_handler\<lparr>request_language := Some [], wav_file := Some example_wav\<rparr>) AudioStop))) =
       [(''model-en'', ([1, 2], 1), 16000, ''en'')]"
  by (simp add: claimed_selection_def selected_key_def onnx_defs example_defs)

text \<open>
  Claim C2 at concrete inputs. With an open sink and the requested language \<open>fr\<close>, a stop
  event that finds no model, and one whose \<^verbatim>\<open>recognize\<close> call raises, both leave the
  requested language at \<open>fr\<close>: a second utterance with no \<^verbatim>\<open>Transcribe\<close> event
  is then recognized as \<open>fr\<close>, not \<open>en\<close>. Only the stop event that ends in a transcript
  resets the field.
\<close>
theorem C2_request_language_kept_on_error:
  "request_language (fst (handle_event example_env
      (example_handler\<lparr>models := [], request_language := Some ''fr'', wav_file := Some example_wav\<rparr>)
      AudioStop)) = Some ''fr''
   \<and> request_language (fst (handle_event example_env
      (example_handler\<lparr>models := [(''multi'', ''broken'')], request_language := Some ''fr'',
         wav_file := Some example_wav\<rparr>)
      AudioStop)) = Some ''fr''
   \<and> recognize_calls (fst (snd (feed_events example_env
      (example_handler\<lparr>models := [(''multi'', ''broken'')]\<rparr>)
      [Transcribe (Some ''fr''), AudioChunk example_chunk, AudioStop,
       AudioChunk example_chunk, AudioStop]))) =
       [(''broken'', ([1, 2], 1), 16000, ''fr''), (''broken'', ([1, 2], 1), 16000, ''fr'')]
   \<and> request_language (fst (handle_event example_env
      (example_handler\<lparr>request_language := Some ''fr'', wav_file := Some example_wav\<rparr>)
      AudioStop)) = None"
  by (simp add: onnx_defs sink_defs example_defs)

text \<open>
  Claim C3, as amended. In the handler of wyoming\_onnx\_asr, a stop event on an open sink that
  finds no model (in particular with an empty registry), or whose \<^verbatim>\<open>recognize\<close> call
  raises, writes one transcript whose text starts with \<open>ERROR:\<close>, returns \<open>False\<close>
  and leaves the lock released. In the handler of wyoming\_nemo\_asr, an exception of
  \<^verbatim>\<open>recognize\<close> leaves \<^verbatim>\<open>handle_event\<close> after the lock is released, and
  no transcript is written.
\<close>
theorem C3_model_failures_reported:
  assumes "wav_file h = Some f" and "nemo_wav_file n = Some g"
  shows "(select_model (request_language_or_en (request_language h)) (models h) = None \<longrightarrow>
            written_events (fst (snd (handle_event ev h AudioStop))) =
              [Transcript (''ERROR: '' @ fst (no_model_error ev h))]
          \<and> recognize_calls (fst (snd (handle_event ev h AudioStop))) = []
          \<and> snd (snd (handle_event ev h AudioStop)) = Returned False
          \<and> lock_held False (fst (snd (handle_event ev h AudioStop))) = False)
       \<and> (select_model (request_language_or_en (request_language h)) (models h) = Some (k, m, line)
          \<and> recognize ev m (astype_float32 ev (make_mono ev (fst (sf_read ev f)))) (snd (sf_read ev f))
              (request_language_or_en (request_language h)) = Inl e \<longrightarrow>
            written_events (fst (snd (handle_event ev h AudioStop))) =
              [Transcript (''ERROR: '' @ ''Transcription failed: '' @ e)]
          \<and> snd (snd (handle_event ev h AudioStop)) = Returned False
          \<and> lock_held False (fst (snd (handle_event ev h AudioStop))) = False)
       \<and> (recognize ev (nemo_model n) (make_mono ev (fst (sf_read ev g))) (snd (sf_read ev g)) ''en''
            = Inl e' \<longrightarrow>
            snd (snd (nemo_handle_event ev n AudioStop)) = Raised (RecognizeError e')
          \<and> written_events (fst (snd (nemo_handle_event ev n AudioStop))) = []
          \<and> lock_held False (fst (snd (nemo_handle_event ev n AudioStop))) = False)"
proof (intro conjI impI)
  assume none: "select_model (request_language_or_en (request_language h)) (models h) = None"
  note eq = stop_no_model [OF assms(1) none, of ev]
  show "written_events (fst (snd (handle_event ev h AudioStop))) =
      [Transcript (''ERROR: '' @ fst (no_model_error ev h))]"
    by (simp add: eq written_events_append written_events_logs)
  show "recognize_calls (fst (snd (handle_event ev h AudioStop))) = []"
    by (simp add: eq recognize_calls_append recognize_calls_logs)
  show "snd (snd (handle_event ev h AudioStop)) = Returned False"
    by (simp add: eq)
  show "lock_held False (fst (snd (handle_event ev h AudioStop))) = False"
    by (simp add: eq lock_held_append lock_held_logs)
next
  assume fails: "select_model (request_language_or_en (request_language h)) (models h) = Some (k, m, line)
      \<and> recognize ev m (astype_float32 ev (make_mono ev (fst (sf_read ev f)))) (snd (sf_read ev f))
          (request_language_or_en (request_language h)) = Inl e"
  note eq = stop_recognize_raises [OF assms(1) conjunct1 [OF fails] conjunct2 [OF fails]]
  show "written_events (fst (snd (handle_event ev h AudioStop))) =
      [Transcript (''ERROR: '' @ ''Transcription failed: '' @ e)]"
    by (simp add: eq)
  show "snd (snd (handle_event ev h AudioStop)) = Returned False"
    by (simp add: eq)
  show "lock_held False (fst (snd (handle_event ev h AudioStop))) = False"
    by (simp add: eq)
next
  assume raises: "recognize ev (nemo_model n) (make_mono ev (fst (sf_read ev g))) (snd (sf_read ev g)) ''en''
      = Inl e'"
  note eq = nemo_stop_raises [OF assms(2) raises]
  show "snd (snd (nemo_handle_event ev n AudioStop)) = Raised (RecognizeError e')"
    by (simp add: eq)
  show "written_events (fst (snd (nemo_handle_event ev n AudioStop))) = []"
    by (simp add: eq)
  show "lock_held False (fst (snd (nemo_handle_event ev n AudioStop))) = False"
    by (simp add: eq)
qed

text \<open>
  An unsupported language on an empty registry, an adapter that raises, and the same adapter
  in the handler of wyoming\_nemo\_asr.
\<close>
theorem C3_model_failures_reported_witness:
  "written_events (fst (snd (handle_event example_env
      (example_handler\<lparr>models := [], request_language := Some ''fr'', wav_file := Some example_wav\<rparr>)
      AudioStop))) =
     [Transcript ''ERROR: Language 'fr' is not supported. Available models: '']
   \<and> written_events (fst (snd (handle_event example_env
      (example_handler\<lparr>models := [(''en'', ''broken'')], wav_file := Some example_wav\<rparr>)
      AudioStop))) =
     [Transcript ''ERROR: Transcription failed: boom'']
   \<and> lock_held False (fst (snd (handle_event example_env
      (example_handler\<lparr>models := [(''en'', ''broken'')], wav_file := Some example_wav\<rparr>)
      AudioStop))) = False
   \<and> snd (snd (nemo_handle_event example_env
      (example_nemo_handler\<lparr>nemo_model := ''broken'', nemo_wav_file := Some example_wav\<rparr>)
      AudioStop)) = Raised (RecognizeError ''boom'')"
proof -
  let ?h1 = "example_handler\<lparr>models := [], request_language := Some ''fr'', wav_file := Some example_wav\<rparr>"
  let ?h2 = "example_handler\<lparr>models := [(''en'', ''broken'')], wav_file := Some example_wav\<rparr>"
  let ?n = "example_nemo_handler\<lparr>nemo_model := ''broken'', nemo_wav_file := Some example_wav\<rparr>"
  have s1: "wav_file ?h1 = Some example_wav" and s2: "wav_file ?h2 = Some example_wav"
    and sn: "nemo_wav_file ?n = Some example_wav"
    by simp_all
  have none: "select_model (request_language_or_en (request_language ?h1)) (models ?h1) = None"
    by (simp add: select_model_def)
  have msg: "fst (no_model_error example_env ?h1)
      = ''Language 'fr' is not supported. Available models: ''"
    by (simp add: no_model_error_def truthy_def example_env_def)
  have sel: "select_model (request_language_or_en (request_language ?h2)) (models ?h2)
      = Some (''en'', ''broken'', Info_SelectedEnglish ''en'')"
    by (simp add: select_model_def request_language_or_en_def truthy_def example_handler_def)
  have boom: "recognize example_env ''broken''
      (astype_float32 example_env (make_mono example_env (fst (sf_read example_env example_wav))))
      (snd (sf_read example_env example_wav))
      (request_language_or_en (request_language ?h2)) = Inl ''boom''"
    by (simp add: example_env_def)
  have nboom: "recognize example_env (nemo_model ?n)
      (make_mono example_env (fst (sf_read example_env example_wav)))
      (snd (sf_read example_env example_wav)) ''en'' = Inl ''boom''"
    by (simp add: example_env_def)
  note a = C3_model_failures_reported [OF s1 sn, where ev = example_env and k = "''en''"
      and m = "''broken''" and line = "Info_SelectedEnglish ''en''" and e = "''boom''"
      and e' = "''boom''"]
  note b = C3_model_failures_reported [OF s2 sn, where ev = example_env and k = "''en''"
      and m = "''broken''" and line = "Info_SelectedEnglish ''en''" and e = "''boom''"
      and e' = "''boom''"]
  from a none msg have p1: "written_events (fst (snd (handle_event example_env ?h1 AudioStop))) =
     [Transcript ''ERROR: Language 'fr' is not supported. Available models: '']"
    by simp
  from b sel boom nboom show ?thesis
    using p1 by simp
qed

text \<open>
  The handler of wyoming\_nemo\_asr with an adapter that raises: the exception leaves the
  handler and nothing is written.
\<close>
theorem C3_counterexample:
  "snd (snd (nemo_handle_event example_env
      (example_nemo_handler\<lparr>nemo_model := ''broken'', nemo_wav_file := Some example_wav\<rparr>)
      AudioStop)) = Raised (RecognizeError ''boom'')
   \<and> written_events (fst (snd (nemo_handle_event example_env
      (example_nemo_handler\<lparr>nemo_model := ''broken'', nemo_wav_file := Some example_wav\<rparr>)
      AudioStop))) = []"
  by (simp add: nemo_defs example_defs)

text \<open>
  Claim C4, as amended. A stop event with no open sink fails the assertion of both handlers:
  after the debug line \<^verbatim>\<open>handle_event\<close> raises \<^verbatim>\<open>AssertionError\<close>, the
  handler's state is unchanged, nothing is written and the lock is not touched.
\<close>
theorem C4_stop_without_sink_raises:
  assumes "wav_file h = None" and "nemo_wav_file n = None"
  shows "handle_event ev h AudioStop =
           (h, [Log (Debug_AudioStopped (initial_prompt h))], Raised AssertionError)
       \<and> nemo_handle_event ev n AudioStop =
           (n, [Log (Debug_AudioStopped (nemo_initial_prompt n))], Raised AssertionError)"
  using assms
  by (simp add: handle_event_def handle_audio_stop_def nemo_handle_event_def
      nemo_handle_audio_stop_def)

text \<open>Both handlers as constructed, before any chunk.\<close>
theorem C4_stop_without_sink_raises_witness:
  "wav_file example_handler = None \<and> nemo_wav_file example_nemo_handler = None
   \<and> handle_event example_env example_handler AudioStop =
       (example_handler, [Log (Debug_AudioStopped None)], Raised AssertionError)
   \<and> nemo_handle_event example_env example_nemo_handler AudioStop =
       (example_nemo_handler, [Log (Debug_AudioStopped None)], Raised AssertionError)"
proof -
  have s: "wav_file example_handler = None" and sn: "nemo_wav_file example_nemo_handler = None"
    by (simp_all add: example_handler_def example_nemo_handler_def)
  have p: "initial_prompt example_handler = None"
    and pn: "nemo_initial_prompt example_nemo_handler = None"
    by (simp_all add: example_handler_def example_nemo_handler_def)
  from C4_stop_without_sink_raises [OF s sn, where ev = example_env] s sn p pn show ?thesis
    by simp
qed

text \<open>A stop event as the first event: both handlers raise and report nothing to the client.\<close>
theorem C4_counterexample:
  "snd (snd (handle_event example_env example_handler AudioStop)) = Raised AssertionError
   \<and> written_events (fst (snd (handle_event example_env example_handler AudioStop))) = []
   \<and> snd (snd (nemo_handle_event example_env example_nemo_handler AudioStop)) = Raised AssertionError"
  by (simp add: onnx_defs nemo_defs example_defs)

text \<open>
  Claim C5, as amended. In the handler of wyoming\_onnx\_asr a \<^verbatim>\<open>Transcribe\<close> event
  changes the requested language to the event's language and nothing else, does nothing
  besides and returns \<open>True\<close>; chunks keep the field, and the next stop event on an open
  sink selects the model and calls \<^verbatim>\<open>recognize\<close> with that language (with \<open>en\<close>
  when it is unset or empty). In the handler of wyoming\_nemo\_asr a \<^verbatim>\<open>Transcribe\<close>
  event changes nothing at all: the stop event that follows it calls \<^verbatim>\<open>recognize\<close>
  with \<open>en\<close>, as does every call of that handler.
\<close>
theorem C5_transcribe_records_language:
  assumes "wav_file (foldl handle_audio_chunk h cs) = Some f"
  shows "handle_event ev h (Transcribe l) = (h\<lparr>request_language := l\<rparr>, [], Returned True)
       \<and> request_language (fst (feed_events ev h (Transcribe l # map AudioChunk cs))) = l
       \<and> recognize_calls (fst (snd (feed_events ev h
            (Transcribe l # map AudioChunk cs @ [AudioStop])))) =
           (case select_model (request_language_or_en l) (models h) of
              None \<Rightarrow> []
            | Some (k, m, line) \<Rightarrow>
                [(m, astype_float32 ev (make_mono ev (fst (sf_read ev f))), snd (sf_read ev f),
                  request_language_or_en l)])
       \<and> nemo_handle_event ev n (Transcribe l) = (n, [], Returned True)
       \<and> (nemo_wav_file n = Some g \<longrightarrow>
            recognize_calls (fst (snd (nemo_feed_events ev n [Transcribe l, AudioStop]))) =
              [(nemo_model n, make_mono ev (fst (sf_read ev g)), snd (sf_read ev g), ''en'')])
       \<and> set (map (snd \<circ> snd \<circ> snd) (recognize_calls (fst (snd (nemo_handle_event ev n e)))))
            \<subseteq> {''en''}"
proof -
  let ?h = "h\<lparr>request_language := l\<rparr>"
  have step: "handle_event ev h (Transcribe l) = (?h, [], Returned True)"
    by (simp add: handle_event_def)
  have nstep: "nemo_handle_event ev n (Transcribe l) = (n, [], Returned True)"
    by (simp add: nemo_handle_event_def)
  have lang: "request_language (fst (feed_events ev h (Transcribe l # map AudioChunk cs))) = l"
    using feed_events_chunks [of ev ?h cs "[]"]
    by (simp add: step chunks_keep split: prod.splits)
  have sink: "wav_file (foldl handle_audio_chunk ?h cs) = Some f"
    by (simp add: chunks_request_language assms)
  have calls: "recognize_calls (fst (snd (feed_events ev h
            (Transcribe l # map AudioChunk cs @ [AudioStop])))) =
           (case select_model (request_language_or_en l) (models h) of
              None \<Rightarrow> []
            | Some (k, m, line) \<Rightarrow>
                [(m, astype_float32 ev (make_mono ev (fst (sf_read ev f))), snd (sf_read ev f),
                  request_language_or_en l)])"
  proof -
    have rl: "request_language (foldl handle_audio_chunk ?h cs) = l"
      and ms: "models (foldl handle_audio_chunk ?h cs) = models h"
      by (simp_all add: chunks_keep)
    have acts: "fst (snd (feed_events ev h (Transcribe l # map AudioChunk cs @ [AudioStop]))) =
        fst (snd (handle_event ev (foldl handle_audio_chunk ?h cs) AudioStop))"
      by (simp add: step feed_events_chunks_stop split: prod.splits)
    show ?thesis
      unfolding acts using stop_recognize_calls [OF sink, of ev] unfolding rl ms .
  qed
  have nacts: "fst (snd (nemo_feed_events ev n [Transcribe l, AudioStop])) =
      fst (snd (nemo_handle_event ev n AudioStop))"
    by (simp add: nstep split: prod.splits outcome.splits)
  have ncalls: "nemo_wav_file n = Some g \<longrightarrow>
      recognize_calls (fst (snd (nemo_feed_events ev n [Transcribe l, AudioStop]))) =
        [(nemo_model n, make_mono ev (fst (sf_read ev g)), snd (sf_read ev g), ''en'')]"
    unfolding nacts by (simp add: nemo_stop_recognize_calls)
  note nlang = nemo_recognize_language [of ev n e]
  from step lang calls nstep ncalls nlang show ?thesis by (intro conjI)
qed

text \<open>
  French requested, one chunk, stop: the multilingual adapter is called with \<open>fr\<close>; in the
  handler of wyoming\_nemo\_asr the adapter is called with \<open>en\<close>.
\<close>
theorem C5_transcribe_records_language_witness:
  "wav_file (foldl handle_audio_chunk example_handler [example_chunk]) = Some example_wav
   \<and> recognize_calls (fst (snd (feed_events example_env example_handler
        (Transcribe (Some ''fr'') # map AudioChunk [example_chunk] @ [AudioStop])))) =
       [(''model-multi'', ([1, 2], 1), 16000, ''fr'')]
   \<and> nemo_wav_file (example_nemo_handler\<lparr>nemo_wav_file := Some example_wav\<rparr>) = Some example_wav
   \<and> map (snd \<circ> snd \<circ> snd) (recognize_calls (fst (snd (nemo_feed_events example_env
        (example_nemo_handler\<lparr>nemo_wav_file := Some example_wav\<rparr>)
        [Transcribe (Some ''fr''), AudioStop])))) = [''en'']"
proof -
  let ?n = "example_nemo_handler\<lparr>nemo_wav_file := Some example_wav\<rparr>"
  have nsink: "nemo_wav_file ?n = Some example_wav"
    by simp
  have sink: "wav_file (foldl handle_audio_chunk example_handler [example_chunk]) = Some example_wav"
    by (simp add: handle_audio_chunk_def sink_defs example_defs)
  have sel: "select_model ''fr'' (models example_handler)
      = Some (''multi'', ''model-multi'', Info_SelectedMultilingual ''fr'')"
    by (simp add: select_model_def example_handler_def)
  have wave: "astype_float32 example_env (make_mono example_env (fst (sf_read example_env example_wav)))
      = ([1, 2], 1)"
    and sr: "snd (sf_read example_env example_wav) = 16000"
    by (simp_all add: make_mono_def example_env_def example_wav_def)
  have lang: "request_language_or_en (Some ''fr'') = ''fr''"
    by (simp add: request_language_or_en_def truthy_def)
  note t = C5_transcribe_records_language [OF sink, where ev = example_env and l = "Some ''fr''"
      and n = ?n and g = example_wav and e = AudioStop]
  note calls = t [THEN conjunct2, THEN conjunct2, THEN conjunct1, unfolded lang wave sr,
      unfolded sel]
  note ncalls = t [THEN conjunct2, THEN conjunct2, THEN conjunct2, THEN conjunct2, THEN conjunct1,
      THEN mp, OF nsink]
  from calls sink have a: "recognize_calls (fst (snd (feed_events example_env example_handler
        (Transcribe (Some ''fr'') # map AudioChunk [example_chunk] @ [AudioStop])))) =
       [(''model-multi'', ([1, 2], 1), 16000, ''fr'')]"
    by simp
  have b: "map (snd \<circ> snd \<circ> snd) (recognize_calls (fst (snd (nemo_feed_events example_env ?n
        [Transcribe (Some ''fr''), AudioStop])))) = [''en'']"
    unfolding ncalls by simp
  from sink a nsink b show ?thesis by (intro conjI)
qed

text \<open>
  The handler of wyoming\_nemo\_asr does not record the language: after a request for French
  its \<^verbatim>\<open>recognize\<close> call is made with \<open>en\<close>.
\<close>
theorem C5_counterexample:
  "fst (nemo_handle_event example_env
      (example_nemo_handler\<lparr>nemo_wav_file := Some example_wav\<rparr>) (Transcribe (Some ''fr'')))
     = example_nemo_handler\<lparr>nemo_wav_file := Some example_wav\<rparr>
   \<and> recognize_calls (fst (snd (nemo_feed_events example_env
      (example_nemo_handler\<lparr>nemo_wav_file := Some example_wav\<rparr>)
      [Transcribe (Some ''fr''), AudioStop]))) =
     [(''model-en'', ([1, 2], 1), 16000, ''en'')]"
  by (simp add: nemo_defs example_defs)

text \<open>
  Claim C6. From a handler with no open sink, a non-empty sequence of chunks followed by a stop
  event leaves at \<^verbatim>\<open>self._wav_path\<close> a container with the first chunk's rate, width
  and channel count, whose frames are the chunks' audio bytes concatenated in arrival order;
  the sink is closed, every chunk returned \<open>True\<close> and the stop event \<open>False\<close>.
\<close>
theorem C6_sink_round_trip:
  assumes "wav_file h = None"
  shows "wav_path_content (fst (feed_events ev h (map AudioChunk (c # cs) @ [AudioStop]))) =
           Some \<lparr>framerate = rate c, sampwidth = width c, nchannels = channels c,
                 frames = concat (map audio (c # cs))\<rparr>
       \<and> wav_file (fst (feed_events ev h (map AudioChunk (c # cs) @ [AudioStop]))) = None
       \<and> snd (snd (feed_events ev h (map AudioChunk (c # cs) @ [AudioStop]))) =
           map (\<lambda>c. Returned True) (c # cs) @ [Returned False]"
proof -
  let ?f = "\<lparr>framerate = rate c, sampwidth = width c, nchannels = channels c,
             frames = concat (map audio (c # cs))\<rparr>"
  have "wav_file (handle_audio_chunk h c) =
      Some \<lparr>framerate = rate c, sampwidth = width c, nchannels = channels c, frames = audio c\<rparr>"
    using assms by (rule chunk_on_closed_sink)
  from chunks_on_open_sink [OF this, of cs]
  have sink: "wav_file (foldl handle_audio_chunk h (c # cs)) = Some ?f"
    by simp
  obtain h2 acts r where stop: "handle_event ev (foldl handle_audio_chunk h (c # cs)) AudioStop = (h2, acts, r)"
    by (rule prod_cases3)
  from stop_sink [OF sink, of ev]
  have "wav_path_content h2 = Some ?f" and "wav_file h2 = None" and "r = Returned False"
    unfolding stop by simp_all
  then show ?thesis
    unfolding feed_events_chunks_stop stop by simp
qed

text \<open>Three chunks, the third with another rate: the first chunk's format, all five bytes in order.\<close>
theorem C6_sink_round_trip_witness:
  "wav_file example_handler = None
   \<and> wav_path_content (fst (feed_events example_env example_handler
        (map AudioChunk (example_chunk # [example_chunk\<lparr>audio := [3]\<rparr>, example_chunk\<lparr>rate := 8000, audio := [4, 5]\<rparr>])
           @ [AudioStop]))) =
       Some \<lparr>framerate = 16000, sampwidth = 2, nchannels = 1, frames = [1, 2, 3, 4, 5]\<rparr>"
proof -
  have s: "wav_file example_handler = None"
    by (simp add: example_handler_def)
  note t = C6_sink_round_trip [OF s, where ev = example_env and c = example_chunk
      and cs = "[example_chunk\<lparr>audio := [3]\<rparr>, example_chunk\<lparr>rate := 8000, audio := [4, 5]\<rparr>]"]
  from t [THEN conjunct1] s show ?thesis by (simp add: example_chunk_def)
qed

text \<open>
  Claim C7. With the array operations of the specification, the waveform that a stop event on an
  open sink passes to \<^verbatim>\<open>recognize\<close> (when it calls it) is, for a recording read
  back as frames of \<open>N > 1\<close> channels, the array of the frames' arithmetic means, the sum of
  a frame's samples divided by \<open>N\<close>; for frames that are pairs \<open>(a, b)\<close> it is the array of
  the values \<open>(a + b) / 2\<close>; and a recording read back as a one-dimensional array is passed
  as it is. The same holds for both handlers.
\<close>
theorem C7_down_mix:
  fixes ev :: "('m, ('a::field) ndarray) env"
  assumes "wav_file h = Some f" and "nemo_wav_file n = Some g"
  shows "(sf_read ev f = (Array2 rows, sr) \<and> 1 < N \<and> (\<forall>r\<in>set rows. length r = N) \<longrightarrow>
            map (fst \<circ> snd) (recognize_calls (fst (snd (handle_event (with_numpy ev) h AudioStop)))) =
              (case select_model (request_language_or_en (request_language h)) (models h) of
                 None \<Rightarrow> []
               | Some s \<Rightarrow> [Array1 (map (\<lambda>r. sum_list r / of_nat N) rows)]))
       \<and> (sf_read ev f = (Array2 (map (\<lambda>(a, b). [a, b]) ps), sr) \<longrightarrow>
            map (fst \<circ> snd) (recognize_calls (fst (snd (handle_event (with_numpy ev) h AudioStop)))) =
              (case select_model (request_language_or_en (request_language h)) (models h) of
                 None \<Rightarrow> []
               | Some s \<Rightarrow> [Array1 (map (\<lambda>(a, b). (a + b) / 2) ps)]))
       \<and> (sf_read ev f = (Array1 xs, sr) \<longrightarrow>
            map (fst \<circ> snd) (recognize_calls (fst (snd (handle_event (with_numpy ev) h AudioStop)))) =
              (case select_model (request_language_or_en (request_language h)) (models h) of
                 None \<Rightarrow> []
               | Some s \<Rightarrow> [Array1 xs]))
       \<and> (sf_read ev g = (Array2 rows, sr) \<and> 1 < N \<and> (\<forall>r\<in>set rows. length r = N) \<longrightarrow>
            map (fst \<circ> snd) (recognize_calls (fst (snd (nemo_handle_event (with_numpy ev) n AudioStop)))) =
              [Array1 (map (\<lambda>r. sum_list r / of_nat N) rows)])
       \<and> (sf_read ev g = (Array2 (map (\<lambda>(a, b). [a, b]) ps), sr) \<longrightarrow>
            map (fst \<circ> snd) (recognize_calls (fst (snd (nemo_handle_event (with_numpy ev) n AudioStop)))) =
              [Array1 (map (\<lambda>(a, b). (a + b) / 2) ps)])
       \<and> (sf_read ev g = (Array1 xs, sr) \<longrightarrow>
            map (fst \<circ> snd) (recognize_calls (fst (snd (nemo_handle_event (with_numpy ev) n AudioStop)))) =
              [Array1 xs])"
proof (intro conjI impI)
  note onnx = stop_waveforms [OF assms(1), of "with_numpy ev"]
  note nemo = nemo_stop_waveforms [OF assms(2), of "with_numpy ev"]
  {
    assume a: "sf_read ev f = (Array2 rows, sr) \<and> 1 < N \<and> (\<forall>r\<in>set rows. length r = N)"
    then have "\<forall>r\<in>set rows. length r = N" by simp
    from mean_of_rows [OF this] a
    have w: "astype_float32 (with_numpy ev) (make_mono (with_numpy ev) (fst (sf_read (with_numpy ev) f)))
        = Array1 (map (\<lambda>r. sum_list r / of_nat N) rows)"
      by (simp add: with_numpy_fields make_mono_with_numpy)
    show "map (fst \<circ> snd) (recognize_calls (fst (snd (handle_event (with_numpy ev) h AudioStop)))) =
        (case select_model (request_language_or_en (request_language h)) (models h) of
           None \<Rightarrow> []
         | Some s \<Rightarrow> [Array1 (map (\<lambda>r. sum_list r / of_nat N) rows)])"
      unfolding onnx w by (rule refl)
  }
  {
    assume "sf_read ev f = (Array2 (map (\<lambda>(a, b). [a, b]) ps), sr)"
    then have w: "astype_float32 (with_numpy ev) (make_mono (with_numpy ev) (fst (sf_read (with_numpy ev) f)))
        = Array1 (map (\<lambda>(a, b). (a + b) / 2) ps)"
      by (simp add: with_numpy_fields make_mono_with_numpy case_prod_beta)
    show "map (fst \<circ> snd) (recognize_calls (fst (snd (handle_event (with_numpy ev) h AudioStop)))) =
        (case select_model (request_language_or_en (request_language h)) (models h) of
           None \<Rightarrow> []
         | Some s \<Rightarrow> [Array1 (map (\<lambda>(a, b). (a + b) / 2) ps)])"
      unfolding onnx w by (rule refl)
  }
  {
    assume "sf_read ev f = (Array1 xs, sr)"
    then have w: "astype_float32 (with_numpy ev) (make_mono (with_numpy ev) (fst (sf_read (with_numpy ev) f))) = Array1 xs"
      by (simp add: with_numpy_fields make_mono_with_numpy)
    show "map (fst \<circ> snd) (recognize_calls (fst (snd (handle_event (with_numpy ev) h AudioStop)))) =
        (case select_model (request_language_or_en (request_language h)) (models h) of
           None \<Rightarrow> []
         | Some s \<Rightarrow> [Array1 xs])"
      unfolding onnx w by (rule refl)
  }
  {
    assume a: "sf_read ev g = (Array2 rows, sr) \<and> 1 < N \<and> (\<forall>r\<in>set rows. length r = N)"
    then have "\<forall>r\<in>set rows. length r = N" by simp
    from mean_of_rows [OF this] a
    show "map (fst \<circ> snd) (recognize_calls (fst (snd (nemo_handle_event (with_numpy ev) n AudioStop)))) =
        [Array1 (map (\<lambda>r. sum_list r / of_nat N) rows)]"
      by (simp add: nemo with_numpy_fields make_mono_with_numpy)
  }
  {
    assume "sf_read ev g = (Array2 (map (\<lambda>(a, b). [a, b]) ps), sr)"
    then show "map (fst \<circ> snd) (recognize_calls (fst (snd (nemo_handle_event (with_numpy ev) n AudioStop)))) =
        [Array1 (map (\<lambda>(a, b). (a + b) / 2) ps)]"
      by (simp add: nemo with_numpy_fields make_mono_with_numpy case_prod_beta)
  }
  {
    assume "sf_read ev g = (Array1 xs, sr)"
    then show "map (fst \<circ> snd) (recognize_calls (fst (snd (nemo_handle_event (with_numpy ev) n AudioStop)))) =
        [Array1 xs]"
      by (simp add: nemo with_numpy_fields make_mono_with_numpy)
  }
qed

text \<open>
  A two-channel recording of the frames \<open>(1, 3)\<close> and \<open>(2, 6)\<close> is recognized as the samples
  \<open>2\<close> and \<open>4\<close>; a single-channel recording of the samples \<open>1\<close> and \<open>2\<close> as it is.
\<close>
theorem C7_down_mix_witness:
  "wav_file (example_handler\<lparr>wav_file := Some example_stereo_wav\<rparr>) = Some example_stereo_wav
   \<and> nemo_wav_file (example_nemo_handler\<lparr>nemo_wav_file := Some example_stereo_wav\<rparr>)
       = Some example_stereo_wav
   \<and> sf_read example_array_env example_stereo_wav = (Array2 [[1, 3], [2, 6]], 16000)
   \<and> map (fst \<circ> snd) (recognize_calls (fst (snd (handle_event (with_numpy example_array_env)
        (example_handler\<lparr>wav_file := Some example_stereo_wav\<rparr>) AudioStop)))) = [Array1 [2, 4]]
   \<and> map (fst \<circ> snd) (recognize_calls (fst (snd (nemo_handle_event (with_numpy example_array_env)
        (example_nemo_handler\<lparr>nemo_wav_file := Some example_stereo_wav\<rparr>) AudioStop)))) = [Array1 [2, 4]]
   \<and> sf_read example_array_env example_wav = (Array1 [1, 2], 16000)
   \<and> map (fst \<circ> snd) (recognize_calls (fst (snd (handle_event (with_numpy example_array_env)
        (example_handler\<lparr>wav_file := Some example_wav\<rparr>) AudioStop)))) = [Array1 [1, 2]]"
proof -
  let ?h = "example_handler\<lparr>wav_file := Some example_stereo_wav\<rparr>"
  let ?n = "example_nemo_handler\<lparr>nemo_wav_file := Some example_stereo_wav\<rparr>"
  let ?h1 = "example_handler\<lparr>wav_file := Some example_wav\<rparr>"
  have s: "wav_file ?h = Some example_stereo_wav"
    and sn: "nemo_wav_file ?n = Some example_stereo_wav"
    and s1: "wav_file ?h1 = Some example_wav"
    by simp_all
  have stereo: "sf_read example_array_env example_stereo_wav = (Array2 [[1, 3], [2, 6]], 16000)"
    by (simp add: example_array_env_def example_stereo_wav_def)
  have pairs: "sf_read example_array_env example_stereo_wav
      = (Array2 (map (\<lambda>(a, b). [a, b]) [(1, 3), (2, 6)]), 16000)"
    by (simp add: example_array_env_def example_stereo_wav_def)
  have mono: "sf_read example_array_env example_wav = (Array1 [1, 2], 16000)"
    by (simp add: example_array_env_def example_wav_def)
  have rows: "sf_read example_array_env example_stereo_wav = (Array2 [[1, 3], [2, 6]], 16000)
      \<and> (1::nat) < 2 \<and> (\<forall>r\<in>set [[1, 3], [2, 6 :: rat]]. length r = 2)"
    using stereo by simp
  have sel: "select_model (request_language_or_en (request_language ?h)) (models ?h)
      = Some (''en'', ''model-en'', Info_SelectedEnglish ''en'')"
    and sel1: "select_model (request_language_or_en (request_language ?h1)) (models ?h1)
      = Some (''en'', ''model-en'', Info_SelectedEnglish ''en'')"
    by (simp_all add: select_model_def request_language_or_en_def truthy_def example_handler_def)
  note t = C7_down_mix [OF s sn, where ev = example_array_env and rows = "[[1, 3], [2, 6]]"
      and sr = 16000 and N = 2 and ps = "[(1, 3), (2, 6)]" and xs = "[1, 2]"]
  note t1 = C7_down_mix [OF s1 sn, where ev = example_array_env and rows = "[[1, 3], [2, 6]]"
      and sr = 16000 and N = 2 and ps = "[(1, 3), (2, 6)]" and xs = "[1, 2]"]
  from t [THEN conjunct1, THEN mp, OF rows, unfolded sel]
  have a: "map (fst \<circ> snd) (recognize_calls (fst (snd (handle_event (with_numpy example_array_env)
        ?h AudioStop)))) = [Array1 [2, 4]]"
    by simp
  from t [THEN conjunct2, THEN conjunct2, THEN conjunct2, THEN conjunct2, THEN conjunct1, THEN mp,
      OF pairs]
  have b: "map (fst \<circ> snd) (recognize_calls (fst (snd (nemo_handle_event (with_numpy example_array_env)
        ?n AudioStop)))) = [Array1 [2, 4]]"
    by simp
  from t1 [THEN conjunct2, THEN conjunct2, THEN conjunct1, THEN mp, OF mono, unfolded sel1]
  have c: "map (fst \<circ> snd) (recognize_calls (fst (snd (handle_event (with_numpy example_array_env)
        ?h1 AudioStop)))) = [Array1 [1, 2]]"
    by simp
  from s sn stereo a b mono c show ?thesis by (intro conjI)
qed

text \<open>
  Claim C8. Two runs of a handler on the same events, from states that differ only in
  \<^verbatim>\<open>initial_prompt\<close>, make the same \<^verbatim>\<open>recognize\<close> calls with the same
  arguments, write the same events and return the same values, and end in states that differ
  only in \<^verbatim>\<open>initial_prompt\<close>; for both handlers.
\<close>
theorem C8_initial_prompt_noninterference:
  "recognize_calls (fst (snd (feed_events ev (h\<lparr>initial_prompt := p\<rparr>) es))) =
     recognize_calls (fst (snd (feed_events ev (h\<lparr>initial_prompt := q\<rparr>) es)))
   \<and> written_events (fst (snd (feed_events ev (h\<lparr>initial_prompt := p\<rparr>) es))) =
     written_events (fst (snd (feed_events ev (h\<lparr>initial_prompt := q\<rparr>) es)))
   \<and> snd (snd (feed_events ev (h\<lparr>initial_prompt := p\<rparr>) es)) =
     snd (snd (feed_events ev (h\<lparr>initial_prompt := q\<rparr>) es))
   \<and> fst (feed_events ev (h\<lparr>initial_prompt := p\<rparr>) es) =
     (fst (feed_events ev (h\<lparr>initial_prompt := q\<rparr>) es))\<lparr>initial_prompt := p\<rparr>
   \<and> recognize_calls (fst (snd (nemo_feed_events ev (n\<lparr>nemo_initial_prompt := p\<rparr>) es))) =
     recognize_calls (fst (snd (nemo_feed_events ev (n\<lparr>nemo_initial_prompt := q\<rparr>) es)))
   \<and> written_events (fst (snd (nemo_feed_events ev (n\<lparr>nemo_initial_prompt := p\<rparr>) es))) =
     written_events (fst (snd (nemo_feed_events ev (n\<lparr>nemo_initial_prompt := q\<rparr>) es)))
   \<and> snd (snd (nemo_feed_events ev (n\<lparr>nemo_initial_prompt := p\<rparr>) es)) =
     snd (snd (nemo_feed_events ev (n\<lparr>nemo_initial_prompt := q\<rparr>) es))"
  by (simp add: feed_events_initial_prompt nemo_feed_events_initial_prompt
      recognize_calls_with_prompt written_events_with_prompt split: prod.splits)

text \<open>
  Two prompts, one chunk and a stop event: the same \<^verbatim>\<open>recognize\<close> calls, though the
  runs differ (in the debug line that prints the prompt).
\<close>
theorem C8_initial_prompt_noninterference_witness:
  "recognize_calls (fst (snd (feed_events example_env (example_handler\<lparr>initial_prompt := Some ''hello''\<rparr>)
      [AudioChunk example_chunk, AudioStop]))) =
     recognize_calls (fst (snd (feed_events example_env (example_handler\<lparr>initial_prompt := None\<rparr>)
      [AudioChunk example_chunk, AudioStop])))
   \<and> fst (snd (feed_events example_env (example_handler\<lparr>initial_prompt := Some ''hello''\<rparr>)
      [AudioChunk example_chunk, AudioStop])) \<noteq>
     fst (snd (feed_events example_env (example_handler\<lparr>initial_prompt := None\<rparr>)
      [AudioChunk example_chunk, AudioStop]))"
proof -
  have differ: "fst (snd (feed_events example_env (example_handler\<lparr>initial_prompt := Some ''hello''\<rparr>)
      [AudioChunk example_chunk, AudioStop])) \<noteq>
     fst (snd (feed_events example_env (example_handler\<lparr>initial_prompt := None\<rparr>)
      [AudioChunk example_chunk, AudioStop]))"
    by (simp add: onnx_defs sink_defs example_defs)
  note t = C8_initial_prompt_noninterference [where ev = example_env and h = example_handler
      and p = "Some ''hello''" and q = None and es = "[AudioChunk example_chunk, AudioStop]"
      and n = example_nemo_handler]
  from t [THEN conjunct1] differ show ?thesis by (rule conjI)
qed

text \<open>
  Claim C10, as amended. In the handler of wyoming\_onnx\_asr, \<^verbatim>\<open>handle_event\<close>
  returns \<open>False\<close> exactly for a stop event on an open sink; it returns \<open>True\<close> for
  every event of another type; a stop event with no open sink returns nothing, it raises
  \<^verbatim>\<open>AssertionError\<close>; an event of a type the handler does not test for changes no
  state and has no effect. The handler of wyoming\_nemo\_asr does the same, except that a stop
  event on an open sink returns \<open>False\<close> only when \<^verbatim>\<open>recognize\<close> returns;
  when \<^verbatim>\<open>recognize\<close> raises, the call raises that exception.
\<close>
theorem C10_return_value:
  "(snd (snd (handle_event ev h e)) = Returned False \<longleftrightarrow> e = AudioStop \<and> wav_file h \<noteq> None)
   \<and> (e \<noteq> AudioStop \<longrightarrow> snd (snd (handle_event ev h e)) = Returned True)
   \<and> (e = AudioStop \<and> wav_file h = None \<longrightarrow>
        snd (snd (handle_event ev h e)) = Raised AssertionError)
   \<and> handle_event ev h (OtherEvent t) = (h, [], Returned True)
   \<and> (snd (snd (nemo_handle_event ev n e)) = Returned False \<longleftrightarrow>
        e = AudioStop
        \<and> (\<exists>g txt. nemo_wav_file n = Some g
             \<and> recognize ev (nemo_model n) (make_mono ev (fst (sf_read ev g))) (snd (sf_read ev g))
                 ''en'' = Inr txt))
   \<and> (e \<noteq> AudioStop \<longrightarrow> snd (snd (nemo_handle_event ev n e)) = Returned True)
   \<and> (e = AudioStop \<and> nemo_wav_file n = None \<longrightarrow>
        snd (snd (nemo_handle_event ev n e)) = Raised AssertionError)
   \<and> nemo_handle_event ev n (OtherEvent t) = (n, [], Returned True)
   \<and> (e = AudioStop \<and> nemo_wav_file n = Some g
        \<and> recognize ev (nemo_model n) (make_mono ev (fst (sf_read ev g))) (snd (sf_read ev g))
            ''en'' = Inl x \<longrightarrow>
        snd (snd (nemo_handle_event ev n e)) = Raised (RecognizeError x))"
proof -
  have onnx: "(snd (snd (handle_event ev h e)) = Returned False \<longleftrightarrow> e = AudioStop \<and> wav_file h \<noteq> None)
     \<and> (e \<noteq> AudioStop \<longrightarrow> snd (snd (handle_event ev h e)) = Returned True)
     \<and> (e = AudioStop \<and> wav_file h = None \<longrightarrow>
          snd (snd (handle_event ev h e)) = Raised AssertionError)"
    by (cases e)
      (auto simp: handle_event_def handle_audio_stop_def Let_def
        split: option.splits sum.splits prod.splits)
  have nemo: "(snd (snd (nemo_handle_event ev n e)) = Returned False \<longleftrightarrow>
        e = AudioStop
        \<and> (\<exists>g txt. nemo_wav_file n = Some g
             \<and> recognize ev (nemo_model n) (make_mono ev (fst (sf_read ev g))) (snd (sf_read ev g))
                 ''en'' = Inr txt))
     \<and> (e \<noteq> AudioStop \<longrightarrow> snd (snd (nemo_handle_event ev n e)) = Returned True)
     \<and> (e = AudioStop \<and> nemo_wav_file n = None \<longrightarrow>
          snd (snd (nemo_handle_event ev n e)) = Raised AssertionError)"
    by (cases e)
      (auto simp: nemo_handle_event_def nemo_handle_audio_stop_def Let_def
        split: option.splits sum.splits)
  have other: "handle_event ev h (OtherEvent t) = (h, [], Returned True)"
    "nemo_handle_event ev n (OtherEvent t) = (n, [], Returned True)"
    by (simp_all add: handle_event_def nemo_handle_event_def)
  have raises: "e = AudioStop \<and> nemo_wav_file n = Some g
        \<and> recognize ev (nemo_model n) (make_mono ev (fst (sf_read ev g))) (snd (sf_read ev g))
            ''en'' = Inl x \<longrightarrow>
        snd (snd (nemo_handle_event ev n e)) = Raised (RecognizeError x)"
    by (auto simp: nemo_stop_raises)
  from onnx nemo other raises show ?thesis by blast
qed

text \<open>
  A describe event, a stop event on an open sink, a stop event with no sink, a transcribe event,
  and a stop event of the second handler with an adapter that raises.
\<close>
theorem C10_return_value_witness:
  "Describe \<noteq> AudioStop
   \<and> snd (snd (handle_event example_env example_handler Describe)) = Returned True
   \<and> wav_file (example_handler\<lparr>wav_file := Some example_wav\<rparr>) \<noteq> None
   \<and> snd (snd (handle_event example_env (example_handler\<lparr>wav_file := Some example_wav\<rparr>) AudioStop))
       = Returned False
   \<and> wav_file example_handler = None
   \<and> snd (snd (handle_event example_env example_handler AudioStop)) = Raised AssertionError
   \<and> snd (snd (nemo_handle_event example_env example_nemo_handler (Transcribe None))) = Returned True
   \<and> snd (snd (nemo_handle_event example_env
        (example_nemo_handler\<lparr>nemo_model := ''broken'', nemo_wav_file := Some example_wav\<rparr>)
        AudioStop)) = Raised (RecognizeError ''boom'')"
proof -
  let ?n = "example_nemo_handler\<lparr>nemo_model := ''broken'', nemo_wav_file := Some example_wav\<rparr>"
  have s: "wav_file example_handler = None"
    by (simp add: example_handler_def)
  have r: "AudioStop = AudioStop \<and> nemo_wav_file ?n = Some example_wav
      \<and> recognize example_env (nemo_model ?n)
          (make_mono example_env (fst (sf_read example_env example_wav)))
          (snd (sf_read example_env example_wav)) ''en'' = Inl ''boom''"
    by (simp add: example_env_def)
  note f = C10_return_value [where ev = example_env and h = example_handler and e = AudioStop
      and n = ?n and t = "''ping''" and g = example_wav and x = "''boom''"]
  note g = f [THEN conjunct2, THEN conjunct2, THEN conjunct2, THEN conjunct2, THEN conjunct2,
      THEN conjunct2, THEN conjunct2, THEN conjunct2, THEN mp, OF r]
  from C10_return_value [where ev = example_env and h = example_handler and e = Describe
      and n = example_nemo_handler and t = "''ping''" and g = example_wav and x = "''boom''"]
  have a: "snd (snd (handle_event example_env example_handler Describe)) = Returned True"
    by simp
  from C10_return_value [where ev = example_env
      and h = "example_handler\<lparr>wav_file := Some example_wav\<rparr>" and e = AudioStop
      and n = example_nemo_handler and t = "''ping''" and g = example_wav and x = "''boom''"]
  have b: "snd (snd (handle_event example_env (example_handler\<lparr>wav_file := Some example_wav\<rparr>) AudioStop))
       = Returned False"
    by simp
  from C10_return_value [where ev = example_env and h = example_handler and e = AudioStop
      and n = example_nemo_handler and t = "''ping''" and g = example_wav and x = "''boom''"] s
  have c: "snd (snd (handle_event example_env example_handler AudioStop)) = Raised AssertionError"
    by simp
  from C10_return_value [where ev = example_env and h = example_handler and e = "Transcribe None"
      and n = example_nemo_handler and t = "''ping''" and g = example_wav and x = "''boom''"]
  have d: "snd (snd (nemo_handle_event example_env example_nemo_handler (Transcribe None))) = Returned True"
    by simp
  from a b c d s g show ?thesis by simp
qed

text \<open>
  A second stop event right after the first: the sink is closed again, and the call neither
  returns \<open>True\<close> nor \<open>False\<close>.
\<close>
theorem C10_counterexample:
  "snd (snd (feed_events example_env example_handler
      [AudioChunk example_chunk, AudioStop, AudioStop])) =
     [Returned True, Returned False, Raised AssertionError]
   \<and> snd (snd (handle_event example_env
        (fst (feed_events example_env example_handler [AudioChunk example_chunk, AudioStop]))
        AudioStop)) \<noteq> Returned True"
  by (simp add: onnx_defs sink_defs example_defs)

end
